theory Spec2Isabelle
  imports Main "HOL-Library.Sublist"
begin

section \<open>Python values, exceptions and local variables\<close>

text \<open>
  The development embeds the conversation core of \<^verbatim>\<open>app.py\<close> (the Flask/SocketIO
  backend) and the generation loop of \<^verbatim>\<open>dialogue-backend.py\<close> (the server-sent-events
  variant). A Python \<^verbatim>\<open>str\<close> is a \<^typ>\<open>string\<close>, one list element per character; a
  Python \<^verbatim>\<open>int\<close> is an \<^typ>\<open>int\<close>. Every exception the code can raise is a value of
  \<open>py_error\<close>, and a function that can raise returns \<open>py_error + 'a\<close>.
\<close>

datatype py_error =
    UnboundLocalError string  \<comment> \<open>a local variable read before it is bound; the variable's name\<close>
  | KeyError string           \<comment> \<open>\<^verbatim>\<open>d[k]\<close> on a dict without key \<^verbatim>\<open>k\<close>\<close>
  | TypeError
  | UnicodeDecodeError        \<comment> \<open>bytes that are not text in the encoding they announce\<close>
  | RecursionError            \<comment> \<open>a document nested deeper than the interpreter allows\<close>
  | RequestException string   \<comment> \<open>raised by \<^verbatim>\<open>requests\<close>: no connection, broken stream\<close>

text \<open>
  A name that is assigned anywhere in a Python function body is local to that function
  in the whole body. Reading it on a path on which no assignment has run yet raises
  \<^verbatim>\<open>UnboundLocalError\<close>. A local variable is therefore an \<open>option\<close>: \<open>None\<close> while it
  is unbound.
\<close>

definition read_local :: "string \<Rightarrow> 'a option \<Rightarrow> py_error + 'a" where
  "read_local name v = (case v of None \<Rightarrow> Inl (UnboundLocalError name) | Some x \<Rightarrow> Inr x)"

text \<open>A JSON object with string values, as the socket handlers receive it: \<^verbatim>\<open>d[k]\<close> and
  \<^verbatim>\<open>d.get(k, default)\<close>.\<close>

type_synonym pydict = "(string \<times> string) list"

definition getitem :: "pydict \<Rightarrow> string \<Rightarrow> py_error + string" where
  "getitem d k = (case map_of d k of None \<Rightarrow> Inl (KeyError k) | Some v \<Rightarrow> Inr v)"

definition dict_get :: "pydict \<Rightarrow> string \<Rightarrow> string \<Rightarrow> string" where
  "dict_get d k dflt = (case map_of d k of None \<Rightarrow> dflt | Some v \<Rightarrow> v)"

abbreviation (input) nl :: char where "nl \<equiv> CHR 0x0A"
abbreviation (input) dq :: char where "dq \<equiv> CHR 0x22"
abbreviation (input) ap :: char where "ap \<equiv> CHR 0x27"

text \<open>\<^verbatim>\<open>sep.join(parts)\<close>; the lines of a triple-quoted template are joined by a newline.\<close>

fun py_join :: "string \<Rightarrow> string list \<Rightarrow> string" where
  "py_join sep [] = []"
| "py_join sep [x] = x"
| "py_join sep (x # y # ys) = x @ sep @ py_join sep (y # ys)"

definition join_lines :: "string list \<Rightarrow> string" where
  "join_lines ls = py_join [nl] ls"

section \<open>Conversations, turns and events (\<^verbatim>\<open>app.py\<close>)\<close>

text \<open>A turn is the dict that \<^verbatim>\<open>generate_stream\<close> appends to a history. The speaker is
  the integer 1 or 2 (the roles "first" and "second").\<close>

record turn =
  speaker :: int
  content :: string
  timestamp :: string

record conversation =
  conv_id :: string
  conv_config :: pydict
  history :: "turn list"
  created_at :: string
  exchange_count :: int

text \<open>What an event carries as its \<^verbatim>\<open>error\<close> text: a literal of the source, or
  \<^verbatim>\<open>str(e)\<close> of a caught exception.\<close>

datatype error_text = Literal string | Str_of py_error

datatype event =
    Dialogue_started string pydict      \<comment> \<open>conversation id, config\<close>
  | Generation_start int string         \<comment> \<open>speaker, conversation id\<close>
  | Message_chunk int string string     \<comment> \<open>speaker, content, conversation id\<close>
  | Generation_complete int string      \<comment> \<open>speaker, full content\<close>
  | Generation_error error_text

text \<open>\<^verbatim>\<open>emit(...)\<close> inside a handler answers the calling client only;
  \<^verbatim>\<open>socketio.emit(..., room=conversation_id)\<close> broadcasts to the viewers of a conversation.\<close>

datatype target = To_caller | To_room string

text \<open>The process-wide state: the table \<^verbatim>\<open>active_conversations\<close>, every event emitted so
  far, in order, and every generation request posted to the backend (model, prompt).\<close>

record state =
  active_conversations :: "string \<rightharpoonup> conversation"
  emitted :: "(target \<times> event) list"
  posted :: "(string \<times> string) list"

definition emit :: "event \<Rightarrow> state \<Rightarrow> state" where
  "emit ev s = s\<lparr>emitted := emitted s @ [(To_caller, ev)]\<rparr>"

definition socketio_emit :: "string \<Rightarrow> event \<Rightarrow> state \<Rightarrow> state" where
  "socketio_emit room ev s = s\<lparr>emitted := emitted s @ [(To_room room, ev)]\<rparr>"

section \<open>Prompt composition (\<^verbatim>\<open>DialogueGenerator.create_prompt\<close>)\<close>

text \<open>The catalogs \<^verbatim>\<open>PHILOSOPHERS\<close> and \<^verbatim>\<open>AUTHORS\<close> are read from JSON files at start-up
  (with embedded defaults), so they are parameters here: a map from a key to the
  string-valued fields of the profile. \<^verbatim>\<open>create_prompt\<close> reads \<^verbatim>\<open>name\<close> and
  \<^verbatim>\<open>era\<close> only.\<close>

type_synonym catalog = "string \<rightharpoonup> pydict"

definition catalog_get :: "catalog \<Rightarrow> string \<Rightarrow> pydict" where
  "catalog_get c k = (case c k of None \<Rightarrow> [] | Some p \<Rightarrow> p)"

definition front_matter_text :: string where
  "front_matter_text = join_lines
    [''Never mention the name of the philospher. You are not describing'',
     ''their views, instead you are embodying them.'',
     '''',
     ''Never mention the name of the author. You are not describing'',
     ''their views, instead you are embodying them.'',
     '''',
     ''Note that of greatest importance is to distingusih that your task is to embody'',
     ''    the ideas/stance/arguments/beliefs/values of the philosopher (or likely ideas on the topic)'',
     ''    NOT their writing/communication style at all!'',
     '''',
     ''Note that of greatest importance is to distingusih that your task is to embody'',
     ''    the writing/communication/dialogue style of the author (acting as a character in one of their books might)'',
     ''    NOT their ideas/stance/arguments/beliefs/values at all!'',
     '''',
     ''Separate components, the philosopher speaking through the author.'',
     ''The author studying the philosopher thoroughly and creating a character in one of their novels portraying them covertly.'',
     '''',
     ''There is no commentary around the writing, only the content itself. The dialogue is not quoted. There is no narrator or descriptions of setting other than what naturally flows from the conversation.'',
     '''',
     ''This is conversational. Brief bursts of dialogue. One to three sentences. Posing questions to each other. Answering the others questions and moving on with a believable and interesting segue.'',
     '''']"

text \<open>The two f-string templates, as functions of the interpolated values.\<close>

definition response_template :: "string \<Rightarrow> string \<Rightarrow> string \<Rightarrow> string \<Rightarrow> string \<Rightarrow> string \<Rightarrow> string" where
  "response_template phil_name era auth_name front_matter last_content topic = join_lines
    [''You are '' @ phil_name @ '', the '' @ era @ '' philosopher.'',
     ''Express your philosophical ideas through the author '' @ auth_name @ [ap] @ ''s literary style.'',
     '''',
     front_matter,
     '''',
     ''Previous statement to respond to:'',
     [dq] @ last_content @ [dq],
     '''',
     ''Topic: '' @ [dq] @ topic @ [dq],
     '''',
     ''Respond in 2-3 sentences that:'',
     ''1. Engage directly with the previous philosophical position'',
     ''2. Present your perspective using '' @ auth_name @ [ap] @ ''s narrative techniques'',
     ''3. Use literary style to make philosophical concepts accessible'',
     ''4. Advance the dialogue while maintaining philosophical authenticity'',
     '''',
     ''Write in a style both philosophically authentic and literarily engaging.'']"

definition opening_template :: "string \<Rightarrow> string \<Rightarrow> string \<Rightarrow> string \<Rightarrow> string \<Rightarrow> string" where
  "opening_template phil_name era auth_name front_matter topic = join_lines
    [''You are '' @ phil_name @ '', the '' @ era @ '' philosopher.'',
     ''Express your philosophical ideas through '' @ auth_name @ [ap] @ ''s literary style.'',
     '''',
     front_matter,
     '''',
     ''Topic for discussion: '' @ [dq] @ topic @ [dq],
     '''',
     ''Craft an opening statement (2-3 sentences) that:'',
     ''1. Introduces your philosophical perspective on this topic'',
     ''2. Uses '' @ auth_name @ [ap] @ ''s narrative techniques to engage modern readers  '',
     ''3. Poses questions or observations inviting deeper exploration'',
     ''4. Makes classical wisdom immediately relevant'',
     '''',
     ''Write in a style both philosophically authentic and literarily engaging.'']"

text \<open>
  \<^verbatim>\<open>create_prompt\<close> binds its local \<^verbatim>\<open>front_matter\<close> in the response branch only, and
  reads it in both branches. In the \<^verbatim>\<open>else\<close> branch the local is still unbound when the
  opening f-string is evaluated.
\<close>

definition create_prompt ::
  "catalog \<Rightarrow> catalog \<Rightarrow> string \<Rightarrow> string \<Rightarrow> string \<Rightarrow> turn list \<Rightarrow> bool \<Rightarrow> py_error + string" where
  "create_prompt PHILOSOPHERS AUTHORS philosopher author topic hist is_response =
    (let phil = catalog_get PHILOSOPHERS philosopher;
         auth = catalog_get AUTHORS author
     in if is_response \<and> hist \<noteq> [] then
          (let last_message = last hist;
               last_content = take 500 (content last_message);
               front_matter = Some front_matter_text
           in case read_local ''front_matter'' front_matter of
                Inl e \<Rightarrow> Inl e
              | Inr fm \<Rightarrow> Inr (response_template (dict_get phil ''name'' philosopher)
                  (dict_get phil ''era'' '''') (dict_get auth ''name'' author) fm last_content topic))
        else
          (let front_matter = None
           in case read_local ''front_matter'' front_matter of
                Inl e \<Rightarrow> Inl e
              | Inr fm \<Rightarrow> Inr (opening_template (dict_get phil ''name'' philosopher)
                  (dict_get phil ''era'' '''') (dict_get auth ''name'' author) fm topic)))"

section \<open>Streaming one generation (\<^verbatim>\<open>DialogueGenerator.generate_stream\<close>)\<close>

text \<open>
  The backend is outside the program: its answer to one \<^verbatim>\<open>requests.post\<close> is an input.
  Either the call raises (\<open>Connect_error\<close>), or it returns an answer: a status code, which
  the code never reads, and lines that end normally (\<open>Eos\<close>) or by an exception inside
  \<^verbatim>\<open>iter_lines\<close> (\<open>Fault\<close>). \<^verbatim>\<open>json.loads\<close> of the bytes of a line returns the parsed
  value (\<open>Json\<close>), raises \<^verbatim>\<open>JSONDecodeError\<close> when the text is not a JSON document
  (\<open>Not_json\<close>), or raises an exception that is not a \<^verbatim>\<open>JSONDecodeError\<close> (\<open>Loads_raises\<close>):
  \<^verbatim>\<open>UnicodeDecodeError\<close> when the bytes are not text at all, \<^verbatim>\<open>RecursionError\<close> when the
  document is nested too deeply. An object holds its members in the order of the document;
  a number with a fraction or an exponent, and the \<^verbatim>\<open>NaN\<close> and \<^verbatim>\<open>Infinity\<close> that
  \<^verbatim>\<open>json.loads\<close> accepts, is a \<open>JFloat\<close> with its text.
\<close>

datatype json =
    JNull | JBool bool | JNum int | JFloat string | JStr string
  | JArr "json list" | JObj "(string \<times> json) list"

datatype line = Blank | Not_json | Loads_raises py_error | Json json

datatype stream_end = Eos | Fault string

datatype response = Connect_error string | Answer int "line list" stream_end

record gen_env =
  response :: response
  now :: string   \<comment> \<open>\<^verbatim>\<open>datetime.now().isoformat()\<close> when the turn is stored\<close>

text \<open>The dict that \<^verbatim>\<open>json.loads\<close> builds from an object keeps the last value of a key
  that the document repeats.\<close>

definition obj_get :: "(string \<times> json) list \<Rightarrow> string \<Rightarrow> json option" where
  "obj_get fs k = map_of (rev fs) k"

text \<open>\<^verbatim>\<open>'response' in chunk\<close>: a key test on a dict, a membership test on a list, a
  substring test on a string, a \<^verbatim>\<open>TypeError\<close> on anything else.\<close>

fun has_response :: "json \<Rightarrow> py_error + bool" where
  "has_response (JObj fs) = Inr (obj_get fs ''response'' \<noteq> None)"
| "has_response (JArr xs) = Inr (JStr ''response'' \<in> set xs)"
| "has_response (JStr t) = Inr (sublist ''response'' t)"
| "has_response _ = Inl TypeError"

text \<open>\<^verbatim>\<open>chunk['response']\<close>, reached only when the test above held. Its value must be a
  string: \<^verbatim>\<open>full_content += content\<close> raises \<^verbatim>\<open>TypeError\<close> on anything else.\<close>

fun get_response :: "json \<Rightarrow> py_error + json" where
  "get_response (JObj fs) =
     (case obj_get fs ''response'' of None \<Rightarrow> Inl (KeyError ''response'') | Some v \<Rightarrow> Inr v)"
| "get_response _ = Inl TypeError"

text \<open>What one line contributes, in the order of the loop body: nothing for an empty
  line (\<^verbatim>\<open>if line\<close>), for text that is not JSON (\<^verbatim>\<open>except json.JSONDecodeError: continue\<close>)
  and for a chunk without \<^verbatim>\<open>response\<close>; the text of the chunk otherwise; or the exception
  that the body raises and the inner \<^verbatim>\<open>except\<close> does not catch.\<close>

definition line_chunk :: "line \<Rightarrow> py_error + string option" where
  "line_chunk l =
    (case l of
       Blank \<Rightarrow> Inr None
     | Not_json \<Rightarrow> Inr None
     | Loads_raises e \<Rightarrow> Inl e
     | Json chunk \<Rightarrow>
         (case has_response chunk of
            Inl e \<Rightarrow> Inl e
          | Inr b \<Rightarrow>
              if \<not> b then Inr None
              else (case get_response chunk of
                      Inl e \<Rightarrow> Inl e
                    | Inr c \<Rightarrow>
                        (case c of JStr t \<Rightarrow> Inr (Some t) | _ \<Rightarrow> Inl TypeError))))"

text \<open>One round of the \<^verbatim>\<open>for line in response.iter_lines()\<close> loop: \<^verbatim>\<open>full_content += content\<close>
  and the \<^verbatim>\<open>message_chunk\<close> event, or the exception that leaves the loop.\<close>

definition stream_line :: "string \<Rightarrow> int \<Rightarrow> line \<Rightarrow> string \<Rightarrow> state \<Rightarrow> state \<times> (py_error + string)" where
  "stream_line cid sp l full s =
    (case line_chunk l of
       Inl e \<Rightarrow> (s, Inl e)
     | Inr None \<Rightarrow> (s, Inr full)
     | Inr (Some t) \<Rightarrow> (socketio_emit cid (Message_chunk sp t cid) s, Inr (full @ t)))"

text \<open>The loop over the lines that arrive. An exception leaves it with the events emitted
  so far.\<close>

fun stream_loop :: "string \<Rightarrow> int \<Rightarrow> line list \<Rightarrow> string \<Rightarrow> state \<Rightarrow> state \<times> (py_error + string)" where
  "stream_loop cid sp [] full s = (s, Inr full)"
| "stream_loop cid sp (l # ls) full s =
     (case stream_line cid sp l full s of
        (s', Inl e) \<Rightarrow> (s', Inl e)
      | (s', Inr full') \<Rightarrow> stream_loop cid sp ls full' s')"

text \<open>The body of the \<^verbatim>\<open>try\<close> up to the end of the loop.\<close>

definition stream_body :: "string \<Rightarrow> int \<Rightarrow> response \<Rightarrow> state \<Rightarrow> state \<times> (py_error + string)" where
  "stream_body cid sp r s =
    (case r of
       Connect_error m \<Rightarrow> (s, Inl (RequestException m))
     | Answer status_code ls e \<Rightarrow>
         (case stream_loop cid sp ls [] s of
            (s', Inl err) \<Rightarrow> (s', Inl err)
          | (s', Inr full) \<Rightarrow>
              (case e of Fault m \<Rightarrow> (s', Inl (RequestException m)) | Eos \<Rightarrow> (s', Inr full))))"

definition append_turn :: "string \<Rightarrow> turn \<Rightarrow> state \<Rightarrow> state" where
  "append_turn cid t s =
    (case active_conversations s cid of
       None \<Rightarrow> s
     | Some c \<Rightarrow> s\<lparr>active_conversations := (active_conversations s)(cid \<mapsto> c\<lparr>history := history c @ [t]\<rparr>)\<rparr>)"

text \<open>\<^verbatim>\<open>generate_stream\<close> returns the full content, or \<^verbatim>\<open>None\<close> from its
  \<^verbatim>\<open>except Exception\<close> handler. Its \<^verbatim>\<open>callback\<close> parameter is never used and is left
  out.\<close>

definition generate_stream :: "string \<Rightarrow> string \<Rightarrow> string \<Rightarrow> int \<Rightarrow> gen_env \<Rightarrow> state \<Rightarrow> state \<times> string option" where
  "generate_stream model prompt conversation_id sp env s =
    (let s1 = socketio_emit conversation_id (Generation_start sp conversation_id) s;
         s2 = s1\<lparr>posted := posted s1 @ [(model, prompt)]\<rparr>
     in case stream_body conversation_id sp (response env) s2 of
          (s3, Inr full_content) \<Rightarrow>
            (let s4 = append_turn conversation_id
                        \<lparr>speaker = sp, content = full_content, timestamp = now env\<rparr> s3;
                 s5 = socketio_emit conversation_id (Generation_complete sp full_content) s4
             in (s5, Some full_content))
        | (s3, Inl e) \<Rightarrow>
            (socketio_emit conversation_id (Generation_error (Str_of e)) s3, None))"

section \<open>The socket handlers and their background threads\<close>

text \<open>
  A handler starts a daemon thread and returns. The model runs the thread to its end
  before the next call: the result is the state the thread leaves and, as \<open>Inl\<close>, the
  exception that ended it, if one did. An exception in a thread is not caught by the handler's
  \<^verbatim>\<open>try\<close>; it ends the thread and emits nothing. \<^verbatim>\<open>time.sleep\<close> changes no state.
\<close>

text \<open>A step of a thread that may raise: the thread ends there, in the state it has
  reached, or goes on with the value. \<open>Inr ()\<close> is a thread that ran to its end.\<close>

definition raising :: "state \<Rightarrow> py_error + 'a \<Rightarrow> ('a \<Rightarrow> state \<times> (py_error + 'b)) \<Rightarrow> state \<times> (py_error + 'b)" where
  "raising s r k = (case r of Inl e \<Rightarrow> (s, Inl e) | Inr x \<Rightarrow> k x)"

text \<open>\<^verbatim>\<open>active_conversations[conversation_id]\<close>.\<close>

definition conversation_of :: "state \<Rightarrow> string \<Rightarrow> py_error + conversation" where
  "conversation_of s cid =
    (case active_conversations s cid of None \<Rightarrow> Inl (KeyError cid) | Some c \<Rightarrow> Inr c)"

text \<open>\<^verbatim>\<open>generate_opening\<close>, the thread of \<^verbatim>\<open>handle_start_dialogue\<close>.\<close>

definition generate_opening ::
  "catalog \<Rightarrow> catalog \<Rightarrow> pydict \<Rightarrow> string \<Rightarrow> gen_env \<Rightarrow> gen_env \<Rightarrow> state \<Rightarrow> state \<times> (py_error + unit)" where
  "generate_opening PHILOSOPHERS AUTHORS data conversation_id env1 env2 s =
     raising s (getitem data ''philosopher1'') (\<lambda>philosopher1.
     raising s (getitem data ''author1'') (\<lambda>author1.
     raising s (getitem data ''topic'') (\<lambda>topic1.
     raising s (create_prompt PHILOSOPHERS AUTHORS philosopher1 author1 topic1 [] False) (\<lambda>prompt1.
     raising s (getitem data ''model1'') (\<lambda>model1.
     let s1 = fst (generate_stream model1 prompt1 conversation_id 1 env1 s) in
     raising s1 (conversation_of s1 conversation_id) (\<lambda>conv.
     let hist = history conv in
     raising s1 (getitem data ''philosopher2'') (\<lambda>philosopher2.
     raising s1 (getitem data ''author2'') (\<lambda>author2.
     raising s1 (getitem data ''topic'') (\<lambda>topic2.
     raising s1 (create_prompt PHILOSOPHERS AUTHORS philosopher2 author2 topic2 hist True) (\<lambda>prompt2.
     raising s1 (getitem data ''model2'') (\<lambda>model2.
     let s2 = fst (generate_stream model2 prompt2 conversation_id 2 env2 s1) in
     raising s2 (conversation_of s2 conversation_id) (\<lambda>conv2.
       (s2\<lparr>active_conversations :=
             (active_conversations s2)(conversation_id \<mapsto> conv2\<lparr>exchange_count := 1\<rparr>)\<rparr>,
        Inr ())))))))))))))"

text \<open>\<^verbatim>\<open>handle_start_dialogue\<close>: the new identifier (\<^verbatim>\<open>uuid.uuid4()\<close>) and the creation
  time are inputs. Nothing in the handler's own \<^verbatim>\<open>try\<close> looks at the config.\<close>

definition handle_start_dialogue ::
  "catalog \<Rightarrow> catalog \<Rightarrow> pydict \<Rightarrow> string \<Rightarrow> string \<Rightarrow> gen_env \<Rightarrow> gen_env \<Rightarrow> state \<Rightarrow> state \<times> (py_error + unit)" where
  "handle_start_dialogue PHILOSOPHERS AUTHORS data conversation_id created env1 env2 s =
    (let s1 = s\<lparr>active_conversations := (active_conversations s)(conversation_id \<mapsto>
                 \<lparr>conv_id = conversation_id, conv_config = data, history = [],
                  created_at = created, exchange_count = 0\<rparr>)\<rparr>;
         s2 = emit (Dialogue_started conversation_id data) s1
     in generate_opening PHILOSOPHERS AUTHORS data conversation_id env1 env2 s2)"

text \<open>
  \<^verbatim>\<open>generate_continuation\<close>, the thread of \<^verbatim>\<open>handle_continue_dialogue\<close>. The nested
  function assigns \<^verbatim>\<open>history\<close> at the end of its loop body and has no \<^verbatim>\<open>nonlocal\<close>
  declaration, so \<^verbatim>\<open>history\<close> is a local of the nested function, unbound when the thread
  starts; the handler's own \<^verbatim>\<open>history\<close> is a different variable. One round of the
  \<^verbatim>\<open>for i in range(2)\<close> loop takes the backend's answer for it and returns the local as
  the round leaves it; the loop carries the local from one round to the next.
\<close>

definition continuation_round ::
  "catalog \<Rightarrow> catalog \<Rightarrow> string \<Rightarrow> pydict \<Rightarrow> gen_env \<Rightarrow> turn list option \<Rightarrow> state
     \<Rightarrow> state \<times> (py_error + turn list option)" where
  "continuation_round PHILOSOPHERS AUTHORS conversation_id config env history_local s =
     raising s (read_local ''history'' history_local) (\<lambda>hist.
     let sp = (if int (length hist) mod 2 = 0 then 1 else 2) in
     raising s (getitem config (if sp = 1 then ''philosopher1'' else ''philosopher2'')) (\<lambda>philosopher.
     raising s (getitem config (if sp = 1 then ''author1'' else ''author2'')) (\<lambda>author.
     raising s (getitem config (if sp = 1 then ''model1'' else ''model2'')) (\<lambda>model.
     raising s (getitem config ''topic'') (\<lambda>topic.
     raising s (create_prompt PHILOSOPHERS AUTHORS philosopher author topic hist True) (\<lambda>prompt.
     let s1 = fst (generate_stream model prompt conversation_id sp env s) in
     raising s1 (conversation_of s1 conversation_id) (\<lambda>conv.
       (s1, Inr (Some (history conv))))))))))"

fun continuation_loop ::
  "catalog \<Rightarrow> catalog \<Rightarrow> string \<Rightarrow> pydict \<Rightarrow> gen_env list \<Rightarrow> turn list option \<Rightarrow> state
     \<Rightarrow> state \<times> (py_error + unit)" where
  "continuation_loop PHILOSOPHERS AUTHORS conversation_id config [] history_local s = (s, Inr ())"
| "continuation_loop PHILOSOPHERS AUTHORS conversation_id config (env # envs) history_local s =
    (case continuation_round PHILOSOPHERS AUTHORS conversation_id config env history_local s of
       (s1, Inl e) \<Rightarrow> (s1, Inl e)
     | (s1, Inr history_local') \<Rightarrow>
         continuation_loop PHILOSOPHERS AUTHORS conversation_id config envs history_local' s1)"

definition generate_continuation ::
  "catalog \<Rightarrow> catalog \<Rightarrow> string \<Rightarrow> pydict \<Rightarrow> gen_env \<Rightarrow> gen_env \<Rightarrow> state \<Rightarrow> state \<times> (py_error + unit)" where
  "generate_continuation PHILOSOPHERS AUTHORS conversation_id config env1 env2 s =
    (case continuation_loop PHILOSOPHERS AUTHORS conversation_id config [env1, env2] None s of
       (s1, Inl e) \<Rightarrow> (s1, Inl e)
     | (s1, Inr u) \<Rightarrow>
         raising s1 (conversation_of s1 conversation_id) (\<lambda>conv.
           (s1\<lparr>active_conversations :=
                 (active_conversations s1)(conversation_id \<mapsto>
                    conv\<lparr>exchange_count := exchange_count conv + 1\<rparr>)\<rparr>, Inr ())))"

text \<open>\<^verbatim>\<open>handle_continue_dialogue\<close>: \<^verbatim>\<open>data.get('conversation_id')\<close> is \<^verbatim>\<open>None\<close> when the
  request has no such key, and \<^verbatim>\<open>None\<close> is in no table. The handler returns after the
  error reply and starts no thread.\<close>

definition handle_continue_dialogue ::
  "catalog \<Rightarrow> catalog \<Rightarrow> pydict \<Rightarrow> gen_env \<Rightarrow> gen_env \<Rightarrow> state \<Rightarrow> state \<times> (py_error + unit)" where
  "handle_continue_dialogue PHILOSOPHERS AUTHORS data env1 env2 s =
    (case map_of data ''conversation_id'' of
       None \<Rightarrow> (emit (Generation_error (Literal ''Conversation not found'')) s, Inr ())
     | Some conversation_id \<Rightarrow>
         (case active_conversations s conversation_id of
            None \<Rightarrow> (emit (Generation_error (Literal ''Conversation not found'')) s, Inr ())
          | Some conv \<Rightarrow>
              generate_continuation PHILOSOPHERS AUTHORS conversation_id (conv_config conv)
                env1 env2 s))"

section \<open>The server-sent-events variant (\<^verbatim>\<open>dialogue-backend.py\<close>)\<close>

text \<open>
  The second variant keeps no table: a request to \<^verbatim>\<open>/generate\<close> brings the config and the
  history so far, and the answer is a stream of messages. Its tables
  \<^verbatim>\<open>PHILOSOPHER_PROFILES\<close> and \<^verbatim>\<open>AUTHOR_STYLES\<close> are literals of the source; the
  functions below take them as parameters, so what is proved holds for the tables of the
  source too.
\<close>

record philosopher_profile =
  era :: string
  key_concepts :: "string list"
  style :: string
  beliefs :: string

record author_style =
  characteristics :: string
  voice :: string

text \<open>A message of the history: the fields the code reads or writes. The entries that
  come with a request are taken to have them.\<close>

record message =
  msg_philosopher :: string
  msg_author :: string
  pairing :: int
  msg_content :: string
  msg_timestamp :: string

text \<open>\<^verbatim>\<open>key.replace('_', ' ').title()\<close>. \<^verbatim>\<open>str.title\<close> is a built-in of the language, with
  the case tables of Unicode behind it; the functions below take it as the parameter
  \<open>title\<close>, so what is proved holds for the built-in too.\<close>

definition display_name :: "(string \<Rightarrow> string) \<Rightarrow> string \<Rightarrow> string" where
  "display_name title k = title (map (\<lambda>c. if c = CHR ''_'' then CHR '' '' else c) k)"

text \<open>\<^verbatim>\<open>create_philosopher_prompt\<close>. A missing profile is the empty dict, and every field is
  read with \<^verbatim>\<open>.get(field, default)\<close>.\<close>

definition history_line ::
  "(string \<Rightarrow> string) \<Rightarrow> (string \<rightharpoonup> philosopher_profile) \<Rightarrow> message \<Rightarrow> string" where
  "history_line title PROFILES entry =
     [nl] @ title (msg_philosopher entry) @ '' ('' @
     (case PROFILES (msg_philosopher entry) of None \<Rightarrow> '''' | Some p \<Rightarrow> era p) @
     ''): '' @ take 500 (msg_content entry) @ ''...''"

definition create_philosopher_prompt ::
  "(string \<Rightarrow> string) \<Rightarrow> (string \<rightharpoonup> philosopher_profile) \<Rightarrow> (string \<rightharpoonup> author_style) \<Rightarrow> string \<Rightarrow> string \<Rightarrow> string
     \<Rightarrow> message list \<Rightarrow> bool \<Rightarrow> string option \<Rightarrow> string" where
  "create_philosopher_prompt title PROFILES STYLES philosopher author topic hist is_response other_philosopher =
    (let phil_profile = PROFILES philosopher;
         author_style = STYLES author;
         system = join_lines
           [''You are '' @ display_name title philosopher @ '', the '' @
              (case phil_profile of None \<Rightarrow> '''' | Some p \<Rightarrow> era p) @ '' philosopher, '',
            ''but you must express your philosophical ideas through the literary voice and style of ''
              @ display_name title author @ ''.'',
            '''',
            ''Your philosophical position includes:'',
            ''- Key concepts: '' @
              py_join '', '' (case phil_profile of None \<Rightarrow> [] | Some p \<Rightarrow> key_concepts p),
            ''- Core beliefs: '' @ (case phil_profile of None \<Rightarrow> '''' | Some p \<Rightarrow> beliefs p),
            ''- Philosophical style: '' @ (case phil_profile of None \<Rightarrow> '''' | Some p \<Rightarrow> style p),
            '''',
            ''You must express these ideas using:'',
            ''- Writing characteristics: '' @
              (case author_style of None \<Rightarrow> '''' | Some a \<Rightarrow> characteristics a),
            ''- Literary voice: '' @ (case author_style of None \<Rightarrow> '''' | Some a \<Rightarrow> voice a),
            '''',
            ''The discussion topic is: '' @ [dq] @ topic @ [dq],
            ''''];
         context = (if hist \<noteq> []
                    then ([nl] @ ''Previous exchange:'')
                         # map (history_line title PROFILES) (drop (length hist - 4) hist)
                    else []);
         instruction =
           (case (if is_response then other_philosopher else None) of
              Some other \<Rightarrow>
                (if other = [] then None
                 else Some (join_lines
                   ['''',
                    ''Now respond to '' @ display_name title other @ [ap] @ ''s points while:'',
                    ''1. Maintaining your philosophical position as '' @ display_name title philosopher,
                    ''2. Using '' @ display_name title author @ [ap]
                      @ ''s literary style to make your ideas accessible'',
                    ''3. Engaging directly with their argument about '' @ topic,
                    ''4. Making your classical philosophy relevant to modern readers'',
                    '''',
                    ''Write 2-3 paragraphs that blend philosophical depth with literary artistry.'']))
            | None \<Rightarrow> None);
         opening = join_lines
           ['''',
            ''Begin the dialogue about '' @ [dq] @ topic @ [dq] @ '' by:'',
            ''1. Presenting your philosophical perspective as '' @ display_name title philosopher,
            ''2. Using '' @ display_name title author @ [ap] @ ''s literary style to engage modern readers'',
            ''3. Raising questions or observations that invite philosophical exploration'',
            ''4. Making ancient wisdom feel immediate and relevant'',
            '''',
            ''Write 2-3 paragraphs that blend philosophical insight with literary craft.'']
     in join_lines ([system] @ context @ [case instruction of Some t \<Rightarrow> t | None \<Rightarrow> opening]))"

text \<open>\<^verbatim>\<open>generate_response\<close> turns the text of the backend into HTML paragraphs:
  \<^verbatim>\<open>strip()\<close>, \<^verbatim>\<open>split('\n\n')\<close>, and one \<^verbatim>\<open><p>\<close> element for every paragraph that is
  not blank. White space is what \<^verbatim>\<open>str.isspace\<close> holds for, among the characters up to
  U+00FF.\<close>

definition is_space :: "char \<Rightarrow> bool" where
  "is_space c = (c \<in> set [CHR 0x09, CHR 0x0A, CHR 0x0B, CHR 0x0C, CHR 0x0D,
                            CHR 0x1C, CHR 0x1D, CHR 0x1E, CHR 0x1F, CHR 0x20, CHR 0x85, CHR 0xA0])"

definition py_strip :: "string \<Rightarrow> string" where
  "py_strip t = rev (dropWhile is_space (rev (dropWhile is_space t)))"

fun split_blank :: "string \<Rightarrow> string \<Rightarrow> string list" where
  "split_blank cur [] = [cur]"
| "split_blank cur [c] = [cur @ [c]]"
| "split_blank cur (a # b # cs) =
     (if a = nl \<and> b = nl then cur # split_blank [] cs else split_blank (cur @ [a]) (b # cs))"

definition html_paragraphs :: "string \<Rightarrow> string" where
  "html_paragraphs text =
     concat (map (\<lambda>p. ''<p>'' @ py_strip p @ ''</p>'')
               (filter (\<lambda>p. py_strip p \<noteq> []) (split_blank [] (py_strip text))))"

text \<open>What \<^verbatim>\<open>client.generate\<close> does is an input: it raises, or returns the text of the
  response. \<^verbatim>\<open>generate_response\<close> logs an exception and raises it again.\<close>

record sse_env =
  outcome :: "py_error + string"
  clock :: string

definition generate_response :: "py_error + string \<Rightarrow> py_error + string" where
  "generate_response r = (case r of Inl e \<Rightarrow> Inl e | Inr text \<Rightarrow> Inr (html_paragraphs text))"

definition and_then :: "py_error + 'a \<Rightarrow> ('a \<Rightarrow> py_error + 'b) \<Rightarrow> py_error + 'b" where
  "and_then r k = (case r of Inl e \<Rightarrow> Inl e | Inr x \<Rightarrow> k x)"

text \<open>What the stream of \<^verbatim>\<open>/generate\<close> carries: a message, or the error that ended it.\<close>

datatype sse = Sse_message message | Sse_error py_error

text \<open>One round of \<^verbatim>\<open>for i in range(num_exchanges)\<close> in \<^verbatim>\<open>generate\<close>: the requests made
  to the backend (model, prompt), and the message or the exception that leaves the loop
  for the \<^verbatim>\<open>except\<close> of \<^verbatim>\<open>generate\<close>. The pairing is chosen by
  \<^verbatim>\<open>(len(history) + i) % 2\<close>. A request is made as soon as the prompt is composed,
  whether the backend then answers or raises.\<close>

definition generate_round ::
  "(string \<Rightarrow> string) \<Rightarrow> (string \<rightharpoonup> philosopher_profile) \<Rightarrow> (string \<rightharpoonup> author_style) \<Rightarrow> pydict
     \<Rightarrow> int \<Rightarrow> sse_env \<Rightarrow> message list \<Rightarrow> (string \<times> string) list \<times> (py_error + message)" where
  "generate_round title PROFILES STYLES data i env hist =
    (let first = ((int (length hist) + i) mod 2 = 0);
         arguments =
           and_then (getitem data (if first then ''philosopher1'' else ''philosopher2'')) (\<lambda>philosopher.
           and_then (getitem data (if first then ''author1'' else ''author2'')) (\<lambda>author.
           and_then (getitem data (if first then ''model1'' else ''model2'')) (\<lambda>model.
           and_then (if first
                     then (if length hist > 0
                           then and_then (getitem data ''philosopher2'') (\<lambda>p. Inr (Some p))
                           else Inr None)
                     else and_then (getitem data ''philosopher1'') (\<lambda>p. Inr (Some p)))
             (\<lambda>other_philosopher.
           and_then (getitem data ''topic'') (\<lambda>topic.
             Inr (philosopher, author, model, other_philosopher, topic))))))
     in case arguments of
          Inl e \<Rightarrow> ([], Inl e)
        | Inr (philosopher, author, model, other_philosopher, topic) \<Rightarrow>
            (let prompt = create_philosopher_prompt title PROFILES STYLES philosopher author
                            topic hist (length hist > 0) other_philosopher
             in ([(model, prompt)],
                 case generate_response (outcome env) of
                   Inl e \<Rightarrow> Inl e
                 | Inr html \<Rightarrow>
                     Inr \<lparr>msg_philosopher = philosopher, msg_author = author,
                          pairing = (if first then 1 else 2), msg_content = html,
                          msg_timestamp = clock env\<rparr>)))"

text \<open>The loop: a message is sent and appended to \<^verbatim>\<open>history\<close> before the next round; an
  exception ends the stream with an error message.\<close>

fun generate_loop ::
  "(string \<Rightarrow> string) \<Rightarrow> (string \<rightharpoonup> philosopher_profile) \<Rightarrow> (string \<rightharpoonup> author_style) \<Rightarrow> pydict
     \<Rightarrow> (int \<times> sse_env) list \<Rightarrow> message list \<Rightarrow> (string \<times> string) list \<times> sse list" where
  "generate_loop title PROFILES STYLES data [] hist = ([], [])"
| "generate_loop title PROFILES STYLES data ((i, env) # rounds) hist =
     (case generate_round title PROFILES STYLES data i env hist of
        (requests, Inl e) \<Rightarrow> (requests, [Sse_error e])
      | (requests, Inr m) \<Rightarrow>
          (case generate_loop title PROFILES STYLES data rounds (hist @ [m]) of
             (later, out) \<Rightarrow> (requests @ later, Sse_message m # out)))"

definition generate ::
  "(string \<Rightarrow> string) \<Rightarrow> (string \<rightharpoonup> philosopher_profile) \<Rightarrow> (string \<rightharpoonup> author_style) \<Rightarrow> pydict
     \<Rightarrow> message list \<Rightarrow> sse_env \<Rightarrow> sse_env \<Rightarrow> (string \<times> string) list \<times> sse list" where
  "generate title PROFILES STYLES data hist env0 env1 =
     generate_loop title PROFILES STYLES data [(0, env0), (1, env1)] hist"

section \<open>Sequences of calls, and the vocabulary of the properties\<close>

text \<open>A call of one of the two handlers, with everything it reads from outside: the
  request, the fresh identifier and the clock for a start, and the backend's answers to
  the two generations of its thread.\<close>

datatype call =
    Start_dialogue pydict string string gen_env gen_env
  | Continue_dialogue pydict gen_env gen_env

fun run_call :: "catalog \<Rightarrow> catalog \<Rightarrow> call \<Rightarrow> state \<Rightarrow> state" where
  "run_call P A (Start_dialogue data cid created env1 env2) s =
     fst (handle_start_dialogue P A data cid created env1 env2 s)"
| "run_call P A (Continue_dialogue data env1 env2) s =
     fst (handle_continue_dialogue P A data env1 env2 s)"

text \<open>Each call completes before the next is issued.\<close>

fun run_calls :: "catalog \<Rightarrow> catalog \<Rightarrow> call list \<Rightarrow> state \<Rightarrow> state" where
  "run_calls P A [] s = s"
| "run_calls P A (c # cs) s = run_calls P A cs (run_call P A c s)"

text \<open>The speakers of a history alternate, starting with the given one.\<close>

fun alternating_from :: "int \<Rightarrow> turn list \<Rightarrow> bool" where
  "alternating_from sp [] = True"
| "alternating_from sp (t # ts) = (speaker t = sp \<and> alternating_from (3 - sp) ts)"

definition alternating :: "turn list \<Rightarrow> bool" where
  "alternating h = alternating_from 1 h"

definition histories :: "state \<Rightarrow> turn list set" where
  "histories s = history ` ran (active_conversations s)"

definition all_alternating :: "state \<Rightarrow> bool" where
  "all_alternating s = (\<forall>h \<in> histories s. alternating h)"

text \<open>A generation ends by an exception when \<^verbatim>\<open>requests.post\<close> raises, when the stream
  breaks before its end, or when a line makes the loop body raise. The status code plays
  no part.\<close>

fun stream_raises :: "response \<Rightarrow> bool" where
  "stream_raises (Connect_error m) = True"
| "stream_raises (Answer status_code ls (Fault m)) = True"
| "stream_raises (Answer status_code ls Eos) = list_ex (\<lambda>l. isl (line_chunk l)) ls"

text \<open>The texts of the chunks among the lines, in order.\<close>

fun chunk_texts :: "line list \<Rightarrow> string list" where
  "chunk_texts [] = []"
| "chunk_texts (l # ls) =
     (case line_chunk l of Inr (Some t) \<Rightarrow> t # chunk_texts ls | _ \<Rightarrow> chunk_texts ls)"

text \<open>A line of text that \<^verbatim>\<open>json.loads\<close> rejects with \<^verbatim>\<open>JSONDecodeError\<close>, or one that it
  parses to an object without a \<^verbatim>\<open>response\<close> field.\<close>

fun lacks_response :: "line \<Rightarrow> bool" where
  "lacks_response Not_json = True"
| "lacks_response (Json (JObj fs)) = (obj_get fs ''response'' = None)"
| "lacks_response _ = False"

text \<open>The request of a continue call: the identifier it names is in the table.\<close>

definition known_conversation :: "state \<Rightarrow> pydict \<Rightarrow> bool" where
  "known_conversation s data =
    (case map_of data ''conversation_id'' of
       None \<Rightarrow> False
     | Some cid \<Rightarrow> active_conversations s cid \<noteq> None)"

subsection \<open>Concrete inputs\<close>

text \<open>The scenario of the specification, with two of the models the start-up banner
  names, and the entries of the embedded default catalogs for its four keys.\<close>

definition scenario_config :: pydict where
  "scenario_config =
    [(''philosopher1'', ''socrates''), (''author1'', ''hemingway''), (''model1'', ''llama3.2:3b''),
     (''philosopher2'', ''kant''), (''author2'', ''woolf''), (''model2'', ''mistral:7b''),
     (''topic'', ''free will'')]"

definition scenario_philosophers :: catalog where
  "scenario_philosophers = map_of
    [(''socrates'',
       [(''name'', ''Socrates''), (''era'', ''Ancient Greek (470-399 BCE)''),
        (''beliefs'', ''wisdom through acknowledging ignorance, moral virtue, divine inner voice''),
        (''style'', ''questioning, ironic, humble yet penetrating'')]),
     (''kant'',
       [(''name'', ''Immanuel Kant''), (''era'', ''18th century German (1724-1804)''),
        (''beliefs'', ''moral duty, limits of reason, human dignity''),
        (''style'', ''systematic, precise, architectonic'')])]"

definition scenario_authors :: catalog where
  "scenario_authors = map_of
    [(''hemingway'',
       [(''name'', ''Ernest Hemingway''),
        (''characteristics'', ''short sentences, simple words, concrete imagery, iceberg theory''),
        (''voice'', ''direct, understated, masculine, journalistic'')]),
     (''woolf'',
       [(''name'', ''Virginia Woolf''),
        (''characteristics'', ''stream of consciousness, long flowing sentences, interior monologue, time fluidity''),
        (''voice'', ''lyrical, introspective, modernist, feminist'')])]"

definition initial_state :: state where
  "initial_state = \<lparr>active_conversations = Map.empty, emitted = [], posted = []\<rparr>"

definition two_turns :: "turn list" where
  "two_turns =
    [\<lparr>speaker = 1, content = ''Is a choice free if you could not have made another?'', timestamp = ''t1''\<rparr>,
     \<lparr>speaker = 2, content = ''Freedom is the law one gives oneself.'', timestamp = ''t2''\<rparr>]"

text \<open>A table with one conversation, \<^verbatim>\<open>c1\<close>, of the scenario's config and two turns.\<close>

definition two_turn_state :: state where
  "two_turn_state =
    \<lparr>active_conversations = [''c1'' \<mapsto>
        \<lparr>conv_id = ''c1'', conv_config = scenario_config, history = two_turns,
         created_at = ''t0'', exchange_count = 1\<rparr>],
     emitted = [], posted = []\<rparr>"

text \<open>Answers of the backend: two chunks and a normal end; one chunk and then a broken
  connection; a chunk and then an error object, with which the backend reports that the
  generation failed on its side; a status 500 with an error object as its body; a line
  of bytes that are not text between two chunks.\<close>

definition env_ok :: gen_env where
  "env_ok = \<lparr>response = Answer 200 [Json (JObj [(''response'', JStr ''I think, '')]),
                                    Json (JObj [(''response'', JStr ''therefore.''), (''done'', JBool True)])] Eos,
             now = ''t3''\<rparr>"

definition env_broken :: gen_env where
  "env_broken = \<lparr>response = Answer 200 [Json (JObj [(''response'', JStr ''I think, '')])]
                                    (Fault ''connection reset''),
                 now = ''t3''\<rparr>"

definition env_error_object :: gen_env where
  "env_error_object =
     \<lparr>response = Answer 200 [Json (JObj [(''response'', JStr ''I think, '')]),
                              Json (JObj [(''error'', JStr ''unexpected EOF'')])] Eos,
      now = ''t3''\<rparr>"

definition env_status_500 :: gen_env where
  "env_status_500 =
     \<lparr>response = Answer 500 [Json (JObj [(''error'', JStr ''model not found'')])] Eos,
      now = ''t3''\<rparr>"

definition env_undecodable :: gen_env where
  "env_undecodable =
     \<lparr>response = Answer 200 [Json (JObj [(''response'', JStr ''I think, '')]),
                              Loads_raises UnicodeDecodeError,
                              Json (JObj [(''response'', JStr ''therefore.''), (''done'', JBool True)])] Eos,
      now = ''t3''\<rparr>"

section \<open>Properties\<close>

subsection \<open>The two unbound locals\<close>

lemma raising_Inl [simp]: "raising s (Inl e) k = (s, Inl e)"
  by (simp add: raising_def)

lemma raising_Inr [simp]: "raising s (Inr x) k = k x"
  by (simp add: raising_def)

text \<open>Whenever \<^verbatim>\<open>create_prompt\<close> takes its \<^verbatim>\<open>else\<close> branch (an opening, or a response to an
  empty history) it raises; with a history it returns the response template.\<close>

lemma create_prompt_unbound:
  "\<not> (is_response \<and> hist \<noteq> []) \<Longrightarrow>
   create_prompt P A ph au t hist is_response = Inl (UnboundLocalError ''front_matter'')"
  by (simp add: create_prompt_def read_local_def Let_def)

lemma create_prompt_response:
  "hist \<noteq> [] \<Longrightarrow> create_prompt P A ph au t hist True =
     Inr (response_template (dict_get (catalog_get P ph) ''name'' ph)
            (dict_get (catalog_get P ph) ''era'' '''') (dict_get (catalog_get A au) ''name'' au)
            front_matter_text (take 500 (content (last hist))) t)"
  by (simp add: create_prompt_def read_local_def Let_def)

text \<open>The thread of a start ends by an exception before its first generation, whatever
  the config: a \<^verbatim>\<open>KeyError\<close> for a missing key, the unbound \<^verbatim>\<open>front_matter\<close> otherwise.\<close>

lemma generate_opening_state: "fst (generate_opening P A data cid e1 e2 s) = s"
  unfolding generate_opening_def
  by (cases "getitem data ''philosopher1''"; cases "getitem data ''author1''";
      cases "getitem data ''topic''")
     (simp_all add: create_prompt_unbound)

lemma generate_opening_complete_config:
  assumes "getitem data ''philosopher1'' = Inr p" "getitem data ''author1'' = Inr a"
    "getitem data ''topic'' = Inr t"
  shows "generate_opening P A data cid e1 e2 s = (s, Inl (UnboundLocalError ''front_matter''))"
  using assms by (simp add: generate_opening_def create_prompt_unbound)

text \<open>The thread of a continue ends at the first read of its local \<^verbatim>\<open>history\<close>.\<close>

lemma continuation_round_unbound:
  "continuation_round P A cid config env None s = (s, Inl (UnboundLocalError ''history''))"
  by (simp add: continuation_round_def read_local_def)

lemma generate_continuation_unbound:
  "generate_continuation P A cid config e1 e2 s = (s, Inl (UnboundLocalError ''history''))"
  by (simp add: generate_continuation_def continuation_round_unbound)

lemma handle_start_state:
  "fst (handle_start_dialogue P A data cid created e1 e2 s) =
     s\<lparr>active_conversations := (active_conversations s)(cid \<mapsto>
          \<lparr>conv_id = cid, conv_config = data, history = [], created_at = created,
           exchange_count = 0\<rparr>),
       emitted := emitted s @ [(To_caller, Dialogue_started cid data)]\<rparr>"
  by (simp add: handle_start_dialogue_def Let_def generate_opening_state emit_def)

lemma handle_continue_known:
  "known_conversation s data \<Longrightarrow>
   handle_continue_dialogue P A data e1 e2 s = (s, Inl (UnboundLocalError ''history''))"
  by (auto simp: handle_continue_dialogue_def known_conversation_def
      generate_continuation_unbound split: option.splits)

lemma handle_continue_unknown:
  "\<not> known_conversation s data \<Longrightarrow>
   handle_continue_dialogue P A data e1 e2 s =
     (s\<lparr>emitted := emitted s @ [(To_caller, Generation_error (Literal ''Conversation not found''))]\<rparr>,
      Inr ())"
  by (auto simp: handle_continue_dialogue_def known_conversation_def emit_def
      split: option.splits)

subsection \<open>Start and continue\<close>

text \<open>
  C1 (the code departs from it). The scenario: a conversation is created with topic
  "free will", socrates/hemingway and kant/woolf, and started. It should end with two
  turns, of the speakers 1 ("first") and 2 ("second"), and the exchange counter 1. What
  the code does, for every catalog, identifier, clock and backend: the conversation is
  registered and \<^verbatim>\<open>dialogue_started\<close> is sent, then the thread ends by
  \<^verbatim>\<open>UnboundLocalError\<close> when it composes the opening prompt. The history stays empty, the
  exchange counter stays 0, no generation is requested.
\<close>

theorem start_scenario_appends_no_turn:
  "handle_start_dialogue P A scenario_config cid created env1 env2 s =
     (s\<lparr>active_conversations := (active_conversations s)(cid \<mapsto>
          \<lparr>conv_id = cid, conv_config = scenario_config, history = [], created_at = created,
           exchange_count = 0\<rparr>),
        emitted := emitted s @ [(To_caller, Dialogue_started cid scenario_config)]\<rparr>,
      Inl (UnboundLocalError ''front_matter''))"
proof -
  have "getitem scenario_config ''philosopher1'' = Inr ''socrates''"
    "getitem scenario_config ''author1'' = Inr ''hemingway''"
    "getitem scenario_config ''topic'' = Inr ''free will''"
    by (simp_all add: getitem_def scenario_config_def)
  then show ?thesis
    by (simp add: handle_start_dialogue_def Let_def emit_def
        generate_opening_complete_config [where p = "''socrates''" and a = "''hemingway''"
          and t = "''free will''"])
qed

text \<open>
  C2 (the code departs from it). A continue on an existing conversation should append
  two turns, the speaker of each by the parity of the history length, and add 1 to the
  exchange counter. What the code does, for every catalog and backend, on the
  conversation that a start of the scenario has just registered, and on the conversation
  \<^verbatim>\<open>c1\<close> with two turns: the thread ends by \<^verbatim>\<open>UnboundLocalError\<close> at \<^verbatim>\<open>len(history)\<close>; the
  state is as before, with no turn appended and the counter unchanged.
\<close>

theorem continue_appends_no_turn:
  "handle_continue_dialogue P A [(''conversation_id'', ''c2'')] env1 env2
      (fst (handle_start_dialogue P A scenario_config ''c2'' ''t5'' env3 env4 initial_state))
     = (fst (handle_start_dialogue P A scenario_config ''c2'' ''t5'' env3 env4 initial_state),
        Inl (UnboundLocalError ''history''))
   \<and> handle_continue_dialogue P A [(''conversation_id'', ''c1'')] env1 env2 two_turn_state
     = (two_turn_state, Inl (UnboundLocalError ''history''))"
proof -
  have "known_conversation
          (fst (handle_start_dialogue P A scenario_config ''c2'' ''t5'' env3 env4 initial_state))
          [(''conversation_id'', ''c2'')]"
    by (simp add: known_conversation_def handle_start_state)
  moreover have "known_conversation two_turn_state [(''conversation_id'', ''c1'')]"
    by (simp add: known_conversation_def two_turn_state_def)
  ultimately show ?thesis
    by (simp add: handle_continue_known)
qed

text \<open>A call adds at most the empty history to the histories of the table: a start
  registers one, a continue changes none. So the alternation of the speakers is kept by
  every sequence of calls, but only for want of a call that appends a turn.\<close>

lemma histories_call: "histories (run_call P A c s) \<subseteq> insert [] (histories s)"
proof (cases c)
  case (Start_dialogue data cid created e1 e2)
  let ?c = "\<lparr>conv_id = cid, conv_config = data, history = [], created_at = created,
             exchange_count = 0\<rparr>"
  have "ran ((active_conversations s)(cid \<mapsto> ?c)) \<subseteq> insert ?c (ran (active_conversations s))"
    by (auto simp: ran_def)
  then have "history ` ran ((active_conversations s)(cid \<mapsto> ?c))
               \<subseteq> history ` insert ?c (ran (active_conversations s))"
    by (rule image_mono)
  with Start_dialogue show ?thesis
    by (simp add: handle_start_state histories_def)
next
  case (Continue_dialogue data e1 e2)
  then show ?thesis
    by (auto simp: handle_continue_dialogue_def generate_continuation_unbound emit_def
        histories_def split: option.splits)
qed

lemma histories_calls: "histories (run_calls P A calls s) \<subseteq> insert [] (histories s)"
proof (induction calls arbitrary: s)
  case Nil
  show ?case by auto
next
  case (Cons c calls)
  from Cons.IH [of "run_call P A c s"] histories_call [of P A c s]
  show ?case by auto
qed

lemma alternation_kept_by_calls:
  assumes "all_alternating s"
  shows "all_alternating (run_calls P A calls s)"
proof -
  have "alternating []" by (simp add: alternating_def)
  with assms histories_calls [of P A calls s] show ?thesis
    by (auto simp: all_alternating_def)
qed

text \<open>No call requests a generation from the backend: both threads end before their
  first \<^verbatim>\<open>generate_stream\<close>. So no start or continue has a generation that fails in its
  course, and none has one that follows a failed one.\<close>

lemma posted_call: "posted (run_call P A c s) = posted s"
proof (cases c)
  case (Start_dialogue data cid created e1 e2)
  then show ?thesis
    by (simp add: handle_start_dialogue_def Let_def emit_def
        generate_opening_def create_prompt_def read_local_def raising_def split: sum.splits)
next
  case (Continue_dialogue data e1 e2)
  then show ?thesis
    by (simp add: handle_continue_dialogue_def emit_def generate_continuation_def
        continuation_round_def read_local_def raising_def split: option.splits)
qed

lemma no_call_requests_a_generation: "posted (run_calls P A calls s) = posted s"
  by (induction calls arbitrary: s) (simp_all add: posted_call)

text \<open>
  C7. A continue call whose conversation identifier is not in the table (or whose
  request names none) answers the caller with the error "Conversation not found" and
  does nothing else: the table, the histories and the exchange counters are as before,
  no generation is requested, and no event is sent to any conversation's viewers.
\<close>

theorem continue_unknown_id:
  "\<not> known_conversation s data \<Longrightarrow>
   handle_continue_dialogue P A data env1 env2 s =
     (s\<lparr>emitted := emitted s @ [(To_caller, Generation_error (Literal ''Conversation not found''))]\<rparr>,
      Inr ())"
  by (rule handle_continue_unknown)

theorem continue_unknown_id_witness:
  "known_conversation two_turn_state [(''conversation_id'', ''c9'')] = False
   \<and> handle_continue_dialogue scenario_philosophers scenario_authors
        [(''conversation_id'', ''c9'')] env_ok env_ok two_turn_state =
     (two_turn_state\<lparr>emitted := [(To_caller, Generation_error (Literal ''Conversation not found''))]\<rparr>,
      Inr ())"
proof -
  have unknown: "\<not> known_conversation two_turn_state [(''conversation_id'', ''c9'')]"
    by (simp add: known_conversation_def two_turn_state_def)
  from continue_unknown_id [OF unknown] unknown show ?thesis
    by (simp add: two_turn_state_def)
qed

text \<open>
  C6 (amended). Creating a conversation checks nothing about the config: for every
  config, also one without the persona, topic and model fields, the handler registers a
  conversation under the new identifier, with that config, and its first answer to the
  caller is \<^verbatim>\<open>dialogue_started\<close>, not an error.
\<close>

theorem start_registers_any_config:
  "active_conversations (fst (handle_start_dialogue P A data cid created env1 env2 s)) cid
     = Some \<lparr>conv_id = cid, conv_config = data, history = [], created_at = created,
             exchange_count = 0\<rparr>
   \<and> prefix (emitted s @ [(To_caller, Dialogue_started cid data)])
        (emitted (fst (handle_start_dialogue P A data cid created env1 env2 s)))"
  by (simp add: handle_start_state)

text \<open>The empty config: a record is registered under \<^verbatim>\<open>c2\<close>, and the only event is
  \<^verbatim>\<open>dialogue_started\<close>.\<close>

theorem start_empty_config_counterexample:
  "active_conversations (fst (handle_start_dialogue scenario_philosophers scenario_authors
       [] ''c2'' ''t5'' env_ok env_ok initial_state)) ''c2''
     = Some \<lparr>conv_id = ''c2'', conv_config = [], history = [], created_at = ''t5'',
             exchange_count = 0\<rparr>
   \<and> emitted (fst (handle_start_dialogue scenario_philosophers scenario_authors
       [] ''c2'' ''t5'' env_ok env_ok initial_state)) = [(To_caller, Dialogue_started ''c2'' [])]"
  by (simp add: handle_start_state initial_state_def)

subsection \<open>Prompts\<close>

text \<open>
  C8 (the code departs from it). Composing a prompt for a philosopher and an author that
  are in no catalog should not raise. For the opening role it raises
  \<^verbatim>\<open>UnboundLocalError\<close>, as it does for every key.
\<close>

theorem opening_prompt_unknown_keys_raises:
  "create_prompt scenario_philosophers scenario_authors ''zeno'' ''nobody'' ''free will'' [] False
     = Inl (UnboundLocalError ''front_matter'')"
  by (simp add: create_prompt_unbound)

text \<open>With a history, keys that are in no catalog give a response prompt whose era is
  empty and whose names are the keys themselves.\<close>

lemma create_prompt_response_unknown:
  assumes "PHILOSOPHERS philosopher = None" "AUTHORS author = None" "hist \<noteq> []"
  shows "create_prompt PHILOSOPHERS AUTHORS philosopher author topic hist True
       = Inr (response_template philosopher [] author front_matter_text
                (take 500 (content (last hist))) topic)"
  using assms
  by (simp add: create_prompt_def read_local_def Let_def catalog_get_def dict_get_def)

lemma response_template_quotes:
  "\<exists>pre post. response_template pn er an fm lc t =
     pre @ (''Previous statement to respond to:'' @ [nl, dq] @ lc @ [dq, nl]) @ post"
proof -
  let ?pre = "join_lines [''You are '' @ pn @ '', the '' @ er @ '' philosopher.'',
     ''Express your philosophical ideas through the author '' @ an @ [ap] @ ''s literary style.'',
     '''', fm, '''', '''']"
  let ?post = "join_lines ['''', ''Topic: '' @ [dq] @ t @ [dq],
     '''',
     ''Respond in 2-3 sentences that:'',
     ''1. Engage directly with the previous philosophical position'',
     ''2. Present your perspective using '' @ an @ [ap] @ ''s narrative techniques'',
     ''3. Use literary style to make philosophical concepts accessible'',
     ''4. Advance the dialogue while maintaining philosophical authenticity'',
     '''',
     ''Write in a style both philosophically authentic and literarily engaging.'']"
  have "response_template pn er an fm lc t =
     ?pre @ (''Previous statement to respond to:'' @ [nl, dq] @ lc @ [dq, nl]) @ ?post"
    by (simp add: response_template_def join_lines_def)
  then show ?thesis by blast
qed

text \<open>
  C9. For a history that is not empty, the response prompt holds, after the line
  "Previous statement to respond to:" and between double quotes, the first 500 characters
  of the content of the last turn; that is the whole content when it has at most 500
  characters.
\<close>

theorem response_prompt_quotes_last_turn:
  assumes "hist \<noteq> []"
  shows "\<exists>prompt. create_prompt P A ph au t hist True = Inr prompt
           \<and> sublist (''Previous statement to respond to:'' @ [nl, dq]
                        @ take 500 (content (last hist)) @ [dq, nl]) prompt
           \<and> (length (content (last hist)) \<le> 500 \<longrightarrow>
                sublist ([dq] @ content (last hist) @ [dq]) prompt)"
proof -
  let ?lc = "take 500 (content (last hist))"
  obtain pre post where shape:
    "response_template (dict_get (catalog_get P ph) ''name'' ph)
        (dict_get (catalog_get P ph) ''era'' '''') (dict_get (catalog_get A au) ''name'' au)
        front_matter_text ?lc t
      = pre @ (''Previous statement to respond to:'' @ [nl, dq] @ ?lc @ [dq, nl]) @ post"
    using response_template_quotes by blast
  let ?prompt = "pre @ (''Previous statement to respond to:'' @ [nl, dq] @ ?lc @ [dq, nl]) @ post"
  have 1: "create_prompt P A ph au t hist True = Inr ?prompt"
    using assms shape by (simp add: create_prompt_response)
  have 2: "sublist (''Previous statement to respond to:'' @ [nl, dq] @ ?lc @ [dq, nl]) ?prompt"
    by (rule sublist_appendI)
  have "?prompt = (pre @ ''Previous statement to respond to:'' @ [nl]) @ ([dq] @ ?lc @ [dq]) @ ([nl] @ post)"
    by simp
  then have 3: "sublist ([dq] @ ?lc @ [dq]) ?prompt"
    by (metis sublist_appendI)
  have 4: "length (content (last hist)) \<le> 500 \<longrightarrow>
             sublist ([dq] @ content (last hist) @ [dq]) ?prompt"
  proof
    assume "length (content (last hist)) \<le> 500"
    then have "?lc = content (last hist)" by simp
    with 3 show "sublist ([dq] @ content (last hist) @ [dq]) ?prompt" by metis
  qed
  from 1 2 4 show ?thesis by blast
qed

theorem response_prompt_quotes_last_turn_witness:
  "two_turns \<noteq> []
   \<and> (\<exists>prompt. create_prompt scenario_philosophers scenario_authors ''socrates'' ''hemingway''
                  ''free will'' two_turns True = Inr prompt
         \<and> sublist ([dq] @ ''Freedom is the law one gives oneself.'' @ [dq]) prompt)"
proof -
  have ne: "two_turns \<noteq> []" by (simp add: two_turns_def)
  have c: "content (last two_turns) = ''Freedom is the law one gives oneself.''"
    by (simp add: two_turns_def)
  from response_prompt_quotes_last_turn [OF ne, of scenario_philosophers scenario_authors
      "''socrates''" "''hemingway''" "''free will''"]
  obtain prompt where
    "create_prompt scenario_philosophers scenario_authors ''socrates'' ''hemingway''
       ''free will'' two_turns True = Inr prompt"
    "length (content (last two_turns)) \<le> 500 \<longrightarrow>
       sublist ([dq] @ content (last two_turns) @ [dq]) prompt"
    by blast
  with c ne show ?thesis by auto
qed

subsection \<open>One generation\<close>

text \<open>The streaming loop changes neither the table nor the requests.\<close>

lemma stream_line_table:
  "active_conversations (fst (stream_line cid sp l full s)) = active_conversations s
   \<and> posted (fst (stream_line cid sp l full s)) = posted s"
  by (simp add: stream_line_def socketio_emit_def split: sum.split option.split)

lemma stream_loop_table:
  "active_conversations (fst (stream_loop cid sp ls full s)) = active_conversations s
   \<and> posted (fst (stream_loop cid sp ls full s)) = posted s"
proof (induction ls arbitrary: full s)
  case Nil
  show ?case by simp
next
  case (Cons l ls)
  obtain s' r where step: "stream_line cid sp l full s = (s', r)"
    by (cases "stream_line cid sp l full s")
  from stream_line_table [of cid sp l full s] step
  have keep: "active_conversations s' = active_conversations s" "posted s' = posted s"
    by simp_all
  show ?case
  proof (cases r)
    case (Inl e)
    with step keep show ?thesis by simp
  next
    case (Inr full')
    with step keep Cons.IH [of full' s'] show ?thesis by simp
  qed
qed

lemma stream_body_table:
  "active_conversations (fst (stream_body cid sp r s)) = active_conversations s
   \<and> posted (fst (stream_body cid sp r s)) = posted s"
proof (cases r)
  case (Connect_error m)
  then show ?thesis by (simp add: stream_body_def)
next
  case (Answer st ls e)
  obtain s' q where run: "stream_loop cid sp ls [] s = (s', q)"
    by (cases "stream_loop cid sp ls [] s")
  with stream_loop_table [of cid sp ls "[]" s] Answer show ?thesis
    by (simp add: stream_body_def split: sum.split stream_end.split)
qed

lemma stream_loop_raises:
  "list_ex (\<lambda>l. isl (line_chunk l)) ls \<Longrightarrow> isl (snd (stream_loop cid sp ls full s))"
proof (induction ls arbitrary: full s)
  case Nil
  then show ?case by simp
next
  case (Cons l ls)
  show ?case
  proof (cases "line_chunk l")
    case (Inl e)
    then show ?thesis by (simp add: stream_line_def)
  next
    case (Inr c)
    with Cons.prems have rest: "list_ex (\<lambda>l. isl (line_chunk l)) ls" by simp
    from Inr Cons.IH [OF rest] show ?thesis
      by (cases c) (simp_all add: stream_line_def)
  qed
qed

lemma stream_body_fails:
  "stream_raises r \<Longrightarrow> isl (snd (stream_body cid sp r s))"
proof (cases r)
  case (Connect_error m)
  then show ?thesis by (simp add: stream_body_def)
next
  case (Answer st ls e)
  assume f: "stream_raises r"
  obtain s' q where run: "stream_loop cid sp ls [] s = (s', q)"
    by (cases "stream_loop cid sp ls [] s")
  show ?thesis
  proof (cases e)
    case Eos
    with f Answer have "list_ex (\<lambda>l. isl (line_chunk l)) ls" by simp
    from stream_loop_raises [OF this, of cid sp "[]" s] run have "isl q" by simp
    with run Answer Eos show ?thesis by (cases q) (simp_all add: stream_body_def)
  next
    case (Fault m)
    with run Answer show ?thesis by (cases q) (simp_all add: stream_body_def)
  qed
qed

text \<open>
  C4 (amended). When a generation ends by an exception inside \<^verbatim>\<open>generate_stream\<close> (the
  request raises, the stream breaks while it is read, or a line makes the loop body
  raise), \<^verbatim>\<open>generate_stream\<close> returns \<^verbatim>\<open>None\<close>, appends no turn, leaves the whole table
  (configs, histories, registrations) as it was, and the last event it sends is a
  \<^verbatim>\<open>generation_error\<close> to the viewers of that conversation.
\<close>

theorem failed_generation_appends_no_turn:
  assumes "stream_raises (response env)"
  shows "snd (generate_stream model prompt cid sp env s) = None
       \<and> active_conversations (fst (generate_stream model prompt cid sp env s)) = active_conversations s
       \<and> (\<exists>e. last (emitted (fst (generate_stream model prompt cid sp env s)))
                = (To_room cid, Generation_error (Str_of e)))"
proof -
  define s2 where "s2 = (socketio_emit cid (Generation_start sp cid) s)
                          \<lparr>posted := posted (socketio_emit cid (Generation_start sp cid) s) @ [(model, prompt)]\<rparr>"
  obtain s3 q where body: "stream_body cid sp (response env) s2 = (s3, q)"
    by (cases "stream_body cid sp (response env) s2")
  from stream_body_fails [OF assms, of cid sp s2] body obtain e where q: "q = Inl e"
    by (cases q) simp_all
  from stream_body_table [of cid sp "response env" s2] body
  have "active_conversations s3 = active_conversations s2" by simp
  then have tab: "active_conversations s3 = active_conversations s"
    by (simp add: s2_def socketio_emit_def)
  have gs: "generate_stream model prompt cid sp env s
              = (socketio_emit cid (Generation_error (Str_of e)) s3, None)"
    using body q by (simp add: generate_stream_def Let_def s2_def)
  show ?thesis using tab by (simp add: gs socketio_emit_def)
qed

theorem failed_generation_appends_no_turn_witness:
  "stream_raises (response env_broken)
   \<and> snd (generate_stream ''mistral:7b'' ''p'' ''c1'' 1 env_broken two_turn_state) = None
   \<and> active_conversations (fst (generate_stream ''mistral:7b'' ''p'' ''c1'' 1 env_broken two_turn_state))
       = active_conversations two_turn_state
   \<and> emitted (fst (generate_stream ''mistral:7b'' ''p'' ''c1'' 1 env_broken two_turn_state))
       = [(To_room ''c1'', Generation_start 1 ''c1''),
          (To_room ''c1'', Message_chunk 1 ''I think, '' ''c1''),
          (To_room ''c1'', Generation_error (Str_of (RequestException ''connection reset'')))]"
proof -
  have fails: "stream_raises (response env_broken)"
    by (simp add: env_broken_def)
  have ev: "emitted (fst (generate_stream ''mistral:7b'' ''p'' ''c1'' 1 env_broken two_turn_state))
       = [(To_room ''c1'', Generation_start 1 ''c1''),
          (To_room ''c1'', Message_chunk 1 ''I think, '' ''c1''),
          (To_room ''c1'', Generation_error (Str_of (RequestException ''connection reset'')))]"
    by (simp add: generate_stream_def stream_body_def stream_line_def line_chunk_def obj_get_def
        socketio_emit_def two_turn_state_def env_broken_def Let_def)
  from failed_generation_appends_no_turn [OF fails, of "''mistral:7b''" "''p''" "''c1''" 1 two_turn_state]
    fails ev show ?thesis by simp
qed

text \<open>A failure that raises nothing is not a failure for the code. The backend reports
  in the stream, after a first chunk, that the generation failed on its side: the error
  object is skipped and the chunk received so far is stored as a turn. The backend
  answers with status 500 and an error object: the status is not read, and an empty turn
  is stored. Both end with \<^verbatim>\<open>generation_complete\<close>.\<close>

theorem unraised_failure_counterexample:
  "generate_stream ''mistral:7b'' ''p'' ''c1'' 1 env_error_object two_turn_state
     = (\<lparr>active_conversations = [''c1'' \<mapsto>
          \<lparr>conv_id = ''c1'', conv_config = scenario_config,
           history = two_turns @ [\<lparr>speaker = 1, content = ''I think, '', timestamp = ''t3''\<rparr>],
           created_at = ''t0'', exchange_count = 1\<rparr>],
        emitted = [(To_room ''c1'', Generation_start 1 ''c1''),
                   (To_room ''c1'', Message_chunk 1 ''I think, '' ''c1''),
                   (To_room ''c1'', Generation_complete 1 ''I think, '')],
        posted = [(''mistral:7b'', ''p'')]\<rparr>,
      Some ''I think, '')
   \<and> generate_stream ''mistral:7b'' ''p'' ''c1'' 1 env_status_500 two_turn_state
     = (\<lparr>active_conversations = [''c1'' \<mapsto>
          \<lparr>conv_id = ''c1'', conv_config = scenario_config,
           history = two_turns @ [\<lparr>speaker = 1, content = '''', timestamp = ''t3''\<rparr>],
           created_at = ''t0'', exchange_count = 1\<rparr>],
        emitted = [(To_room ''c1'', Generation_start 1 ''c1''),
                   (To_room ''c1'', Generation_complete 1 '''')],
        posted = [(''mistral:7b'', ''p'')]\<rparr>,
      Some '''')"
  by (simp add: generate_stream_def stream_body_def stream_line_def line_chunk_def obj_get_def
      socketio_emit_def append_turn_def two_turn_state_def env_error_object_def
      env_status_500_def Let_def)

text \<open>A stream without a line that raises: the content is the chunks' texts in order, one
  \<^verbatim>\<open>message_chunk\<close> goes out for each, and the turn is stored.\<close>

lemma stream_loop_clean:
  "\<not> list_ex (\<lambda>l. isl (line_chunk l)) ls \<Longrightarrow>
   stream_loop cid sp ls full s =
     (s\<lparr>emitted := emitted s @ map (\<lambda>t. (To_room cid, Message_chunk sp t cid)) (chunk_texts ls)\<rparr>,
      Inr (full @ concat (chunk_texts ls)))"
proof (induction ls arbitrary: full s)
  case Nil
  show ?case by simp
next
  case (Cons l ls)
  from Cons.prems have here: "\<not> isl (line_chunk l)"
    and rest: "\<not> list_ex (\<lambda>l. isl (line_chunk l)) ls" by simp_all
  from here obtain c where c: "line_chunk l = Inr c" by (cases "line_chunk l") simp_all
  show ?case
  proof (cases c)
    case None
    with c Cons.IH [OF rest] show ?thesis by (simp add: stream_line_def)
  next
    case (Some t)
    with c Cons.IH [OF rest] show ?thesis by (simp add: stream_line_def socketio_emit_def)
  qed
qed

lemma generate_stream_completes:
  assumes "\<not> stream_raises (Answer st ls Eos)" and "active_conversations s cid = Some c"
  shows "generate_stream model prompt cid sp \<lparr>response = Answer st ls Eos, now = t\<rparr> s =
     (s\<lparr>active_conversations := (active_conversations s)(cid \<mapsto>
            c\<lparr>history := history c @
                 [\<lparr>speaker = sp, content = concat (chunk_texts ls), timestamp = t\<rparr>]\<rparr>),
        emitted := emitted s @ (To_room cid, Generation_start sp cid)
                   # map (\<lambda>t. (To_room cid, Message_chunk sp t cid)) (chunk_texts ls)
                   @ [(To_room cid, Generation_complete sp (concat (chunk_texts ls)))],
        posted := posted s @ [(model, prompt)]\<rparr>,
      Some (concat (chunk_texts ls)))"
proof -
  from assms(1) have clean: "\<not> list_ex (\<lambda>l. isl (line_chunk l)) ls" by simp
  show ?thesis
    using assms(2)
    by (simp add: generate_stream_def stream_body_def stream_loop_clean [OF clean]
        socketio_emit_def append_turn_def Let_def)
qed

lemma lacks_response_chunk: "lacks_response l \<Longrightarrow> line_chunk l = Inr None"
  by (cases l rule: lacks_response.cases) (simp_all add: line_chunk_def)

lemma chunk_texts_skip:
  "lacks_response l \<Longrightarrow> chunk_texts (xs @ l # ys) = chunk_texts (xs @ ys)"
  by (induction xs) (simp_all add: lacks_response_chunk split: sum.splits option.splits)

lemma raises_skip:
  "lacks_response l \<Longrightarrow>
   list_ex (\<lambda>l. isl (line_chunk l)) (xs @ l # ys) = list_ex (\<lambda>l. isl (line_chunk l)) (xs @ ys)"
  by (simp add: lacks_response_chunk)

text \<open>With or without such a line, a generation runs the same way, however the stream
  ends.\<close>

lemma stream_loop_skip:
  "lacks_response l \<Longrightarrow>
   stream_loop cid sp (xs @ l # ys) full s = stream_loop cid sp (xs @ ys) full s"
proof (induction xs arbitrary: full s)
  case Nil
  then show ?case by (simp add: stream_line_def lacks_response_chunk)
next
  case (Cons x xs)
  obtain s' r where step: "stream_line cid sp x full s = (s', r)"
    by (cases "stream_line cid sp x full s")
  with Cons show ?case by (cases r) simp_all
qed

lemma skipped_line_same_run:
  "lacks_response l \<Longrightarrow>
   generate_stream model prompt cid sp \<lparr>response = Answer st (xs @ l # ys) e, now = t\<rparr> s
     = generate_stream model prompt cid sp \<lparr>response = Answer st (xs @ ys) e, now = t\<rparr> s"
  by (simp add: generate_stream_def stream_body_def stream_loop_skip)

text \<open>
  C10 (amended). A line of the stream that is text but not a JSON document
  (\<^verbatim>\<open>json.loads\<close> raises \<^verbatim>\<open>JSONDecodeError\<close>), or that parses to a JSON object without a
  \<^verbatim>\<open>response\<close> field, is skipped: when no other line raises and the stream ends normally,
  the generation completes, its content and its \<^verbatim>\<open>message_chunk\<close> events are those of the
  other lines, no \<^verbatim>\<open>generation_error\<close> is sent, and the turn is appended to the history of
  the conversation, as if that line had never been produced.
\<close>

theorem skipped_line_leaves_no_trace:
  assumes "lacks_response l" and "\<not> stream_raises (Answer st (xs @ ys) Eos)"
    and "active_conversations s cid = Some c"
  shows "generate_stream model prompt cid sp \<lparr>response = Answer st (xs @ l # ys) Eos, now = t\<rparr> s =
     (s\<lparr>active_conversations := (active_conversations s)(cid \<mapsto>
            c\<lparr>history := history c @
                 [\<lparr>speaker = sp, content = concat (chunk_texts (xs @ ys)), timestamp = t\<rparr>]\<rparr>),
        emitted := emitted s @ (To_room cid, Generation_start sp cid)
                   # map (\<lambda>t. (To_room cid, Message_chunk sp t cid)) (chunk_texts (xs @ ys))
                   @ [(To_room cid, Generation_complete sp (concat (chunk_texts (xs @ ys))))],
        posted := posted s @ [(model, prompt)]\<rparr>,
      Some (concat (chunk_texts (xs @ ys))))"
proof -
  from assms(1,2) have "\<not> stream_raises (Answer st (xs @ l # ys) Eos)"
    by (simp add: lacks_response_chunk)
  from generate_stream_completes [OF this assms(3)] assms(1) show ?thesis
    by (simp only: chunk_texts_skip)
qed

theorem skipped_line_leaves_no_trace_witness:
  "lacks_response (Json (JObj [(''status'', JStr ''loading'')]))
   \<and> \<not> stream_raises (response env_ok)
   \<and> generate_stream ''mistral:7b'' ''p'' ''c1'' 1
        \<lparr>response = Answer 200
           [Json (JObj [(''response'', JStr ''I think, '')]),
            Json (JObj [(''status'', JStr ''loading'')]),
            Json (JObj [(''response'', JStr ''therefore.''), (''done'', JBool True)])] Eos,
         now = ''t3''\<rparr> two_turn_state
     = (\<lparr>active_conversations = [''c1'' \<mapsto>
          \<lparr>conv_id = ''c1'', conv_config = scenario_config,
           history = two_turns @ [\<lparr>speaker = 1, content = ''I think, therefore.'', timestamp = ''t3''\<rparr>],
           created_at = ''t0'', exchange_count = 1\<rparr>],
        emitted = [(To_room ''c1'', Generation_start 1 ''c1''),
                   (To_room ''c1'', Message_chunk 1 ''I think, '' ''c1''),
                   (To_room ''c1'', Message_chunk 1 ''therefore.'' ''c1''),
                   (To_room ''c1'', Generation_complete 1 ''I think, therefore.'')],
        posted = [(''mistral:7b'', ''p'')]\<rparr>,
      Some ''I think, therefore.'')"
proof -
  let ?a = "Json (JObj [(''response'', JStr ''I think, '')])"
  let ?l = "Json (JObj [(''status'', JStr ''loading'')])"
  let ?b = "Json (JObj [(''response'', JStr ''therefore.''), (''done'', JBool True)])"
  have skip: "lacks_response ?l" by (simp add: obj_get_def)
  have clean: "\<not> stream_raises (Answer 200 ([?a] @ [?b]) Eos)"
    by (simp add: line_chunk_def obj_get_def)
  have there: "active_conversations two_turn_state ''c1'' =
      Some \<lparr>conv_id = ''c1'', conv_config = scenario_config, history = two_turns,
            created_at = ''t0'', exchange_count = 1\<rparr>"
    by (simp add: two_turn_state_def)
  have texts: "chunk_texts ([?a] @ [?b]) = [''I think, '', ''therefore.'']"
    by (simp add: line_chunk_def obj_get_def)
  have run: "generate_stream ''mistral:7b'' ''p'' ''c1'' 1
               \<lparr>response = Answer 200 ([?a] @ ?l # [?b]) Eos, now = ''t3''\<rparr> two_turn_state
       = (\<lparr>active_conversations = [''c1'' \<mapsto>
          \<lparr>conv_id = ''c1'', conv_config = scenario_config,
           history = two_turns @ [\<lparr>speaker = 1, content = ''I think, therefore.'', timestamp = ''t3''\<rparr>],
           created_at = ''t0'', exchange_count = 1\<rparr>],
        emitted = [(To_room ''c1'', Generation_start 1 ''c1''),
                   (To_room ''c1'', Message_chunk 1 ''I think, '' ''c1''),
                   (To_room ''c1'', Message_chunk 1 ''therefore.'' ''c1''),
                   (To_room ''c1'', Generation_complete 1 ''I think, therefore.'')],
        posted = [(''mistral:7b'', ''p'')]\<rparr>,
      Some ''I think, therefore.'')"
    unfolding skipped_line_leaves_no_trace [OF skip clean there] texts
    by (simp add: two_turn_state_def)
  from clean have "\<not> stream_raises (response env_ok)" by (simp add: env_ok_def)
  with skip run show ?thesis by simp
qed

text \<open>A line of bytes that are not text is not valid JSON either, and is not skipped:
  \<^verbatim>\<open>json.loads\<close> raises \<^verbatim>\<open>UnicodeDecodeError\<close>, the generation ends with
  \<^verbatim>\<open>generation_error\<close>, and the chunk before it is in no turn.\<close>

theorem undecodable_line_counterexample:
  "generate_stream ''mistral:7b'' ''p'' ''c1'' 1 env_undecodable two_turn_state
     = (two_turn_state
          \<lparr>emitted := [(To_room ''c1'', Generation_start 1 ''c1''),
                       (To_room ''c1'', Message_chunk 1 ''I think, '' ''c1''),
                       (To_room ''c1'', Generation_error (Str_of UnicodeDecodeError))],
           posted := [(''mistral:7b'', ''p'')]\<rparr>,
        None)"
  by (simp add: generate_stream_def stream_body_def stream_line_def line_chunk_def obj_get_def
      socketio_emit_def two_turn_state_def env_undecodable_def Let_def)

subsection \<open>The server-sent-events variant\<close>

lemma and_then_Inl [simp]: "and_then (Inl e) k = Inl e"
  by (simp add: and_then_def)

lemma and_then_Inr [simp]: "and_then (Inr x) k = k x"
  by (simp add: and_then_def)

text \<open>When both rounds of \<^verbatim>\<open>generate\<close> succeed, both messages come from the same pairing:
  the second round adds 1 for \<^verbatim>\<open>i\<close> to a history that has grown by 1.\<close>

lemma generate_round_pairing:
  "generate_round title PROFILES STYLES data i env hist = (requests, Inr m) \<Longrightarrow>
   pairing m = (if (int (length hist) + i) mod 2 = 0 then 1 else 2)"
  by (auto simp: generate_round_def Let_def split: sum.splits prod.splits)

lemma generate_same_pairing:
  assumes "generate title PROFILES STYLES data hist env0 env1
             = (requests, [Sse_message m0, Sse_message m1])"
  shows "pairing m0 = (if even (length hist) then 1 else 2) \<and> pairing m1 = pairing m0"
proof -
  from assms obtain r0 where r0:
    "generate_round title PROFILES STYLES data 0 env0 hist = (r0, Inr m0)"
    by (auto simp: generate_def split: sum.splits prod.splits)
  with assms obtain r1 where r1:
    "generate_round title PROFILES STYLES data 1 env1 (hist @ [m0]) = (r1, Inr m1)"
    by (auto simp: generate_def split: sum.splits prod.splits)
  have p0: "pairing m0 = (if even (length hist) then 1 else 2)"
    using generate_round_pairing [OF r0] by (simp add: even_iff_mod_2_eq_zero) presburger
  have p1: "pairing m1 = (if even (length hist) then 1 else 2)"
    using generate_round_pairing [OF r1] by simp presburger
  from p0 p1 show ?thesis by simp
qed




text \<open>When the backend fails in the first round, the stream is one error message: the
  loop is left after at most one request, and nothing is tried again.\<close>

lemma generate_round_fails:
  "outcome env = Inl e \<Longrightarrow>
   \<exists>requests e'. generate_round title PROFILES STYLES data i env hist = (requests, Inl e')
      \<and> length requests \<le> 1"
  by (simp add: generate_round_def generate_response_def Let_def split: sum.splits prod.splits)

lemma generate_stops_at_failure:
  assumes "outcome env0 = Inl e"
  shows "\<exists>requests e'. generate title PROFILES STYLES data hist env0 env1 = (requests, [Sse_error e'])
           \<and> length requests \<le> 1"
proof -
  from generate_round_fails [OF assms] obtain requests e' where
    "generate_round title PROFILES STYLES data 0 env0 hist = (requests, Inl e')"
    "length requests \<le> 1"
    by blast
  then show ?thesis by (simp add: generate_def)
qed

text \<open>A philosopher and an author that are in no table give the prompt of a profile
  whose fields are all empty, in both roles.\<close>

lemma history_line_unknown:
  "PROFILES philosopher = None \<Longrightarrow>
   history_line title
     (PROFILES(philosopher \<mapsto> \<lparr>era = [], key_concepts = [], style = [], beliefs = []\<rparr>))
     = history_line title PROFILES"
  by (rule ext) (simp add: history_line_def)

lemma create_philosopher_prompt_unknown:
  assumes "PROFILES philosopher = None" "STYLES author = None"
  shows "create_philosopher_prompt title PROFILES STYLES philosopher author topic hist is_response other
       = create_philosopher_prompt title
           (PROFILES(philosopher \<mapsto> \<lparr>era = [], key_concepts = [], style = [], beliefs = []\<rparr>))
           (STYLES(author \<mapsto> \<lparr>characteristics = [], voice = []\<rparr>))
           philosopher author topic hist is_response other"
  using assms by (simp add: create_philosopher_prompt_def history_line_unknown)

end
